theory Spec2Isabelle
  imports Main
begin

section \<open>The QuickNote pipeline orchestrator\<close>

text \<open>
  A shallow embedding of \<^verbatim>\<open>run_pipeline\<close> (app/services/summarize.py) and of the two
  methods \<^verbatim>\<open>Transcriber.transcribe\<close> and \<^verbatim>\<open>Transcriber.language_rules\<close>
  (app/pipelines/summarizer.py).

  A run is modelled by the pair of its trace and its outcome. The trace is the ordered list
  of everything the run does to the outside: the events handed to the audit logger, the
  call of \<^verbatim>\<open>save()\<close>, and the calls of the external collaborators with their arguments.
  The outcome is the returned dictionary or the exception that leaves \<^verbatim>\<open>run_pipeline\<close>.
  Output written with \<^verbatim>\<open>print\<close> is not modelled.
\<close>

subsection \<open>Values\<close>

type_synonym path = string

text \<open>
  A Python exception: its class and the text \<^verbatim>\<open>str(e)\<close>. The first constructor holds
  the instances of \<^verbatim>\<open>Exception\<close>, the second the exceptions outside it, such as
  \<^verbatim>\<open>KeyboardInterrupt\<close> and \<^verbatim>\<open>SystemExit\<close>, which \<^verbatim>\<open>except Exception\<close> does not catch.
\<close>

datatype exn =
    is_Exception: Exception (exn_class: string) (exn_str: string)
  | BaseException (exn_class: string) (exn_str: string)

text \<open>Keyword fields of an audit event.\<close>

datatype logval = LStr string | LBool bool | LInt int

text \<open>
  Modelled from the spec: \<^verbatim>\<open>JSONLogger\<close> (app/helper.py) is not among the sources.
  \<^verbatim>\<open>log(stage, severity, message, **fields)\<close> appends one event, \<^verbatim>\<open>save()\<close> persists
  the events appended so far.
\<close>

datatype event = Event (stage: string) (severity: string) (message: string)
  (fields: "(string \<times> logval) list")

type_synonym clusters = "(int \<times> string list) list"

datatype action =
    Log event
  | Save
  | Mkdir path
  | ConvertVideo path path
  | ConvertAudio path path
  | Enhance "path option" bool
  | InitModels string
  | WhisperTranscribe path "string option"
  | GenerateContent string
  | ChunkText string int
  | ClusterChunks "string list"
  | FinalSummary clusters string
  | CleanFolder path

text \<open>
  Values stored in the returned dictionary. The per-cluster summaries come from
  \<^verbatim>\<open>Summarizer.get_final_summary\<close>, which is not among the sources; their type is left
  open.
\<close>

datatype 'cs pyval = PStr string | PStrList "string list" | PObj 'cs

type_synonym 'cs dict = "(string \<times> 'cs pyval) list"

datatype 'cs outcome = Returned "'cs dict" | Raised exn

text \<open>A stage either hands a value to the next stage or ends the run.\<close>

datatype ('a, 'cs) step = Next 'a | Stop "'cs outcome"

type_synonym ('a, 'cs) stage = "action list \<times> ('a, 'cs) step"

definition and_then ::
  "'t list \<times> ('a, 'cs) step \<Rightarrow> ('a \<Rightarrow> 't list \<times> ('b, 'cs) step) \<Rightarrow> 't list \<times> ('b, 'cs) step" where
  "and_then m f =
     (case m of
        (t, Next x) \<Rightarrow> (case f x of (t', r) \<Rightarrow> (t @ t', r))
      | (t, Stop out) \<Rightarrow> (t, Stop out))"

definition finish :: "'t list \<times> ('cs dict, 'cs) step \<Rightarrow> 't list \<times> 'cs outcome" where
  "finish m = (case m of (t, Next d) \<Rightarrow> (t, Returned d) | (t, Stop out) \<Rightarrow> (t, out))"

text \<open>
  \<^verbatim>\<open>try: body  except Exception as e: handler(e)\<close>. An exception that is not an instance
  of \<^verbatim>\<open>Exception\<close> passes the handler by and leaves the \<^verbatim>\<open>try\<close> statement.
\<close>

definition try_except :: "exn + 'a \<Rightarrow> (exn \<Rightarrow> exn + 'a) \<Rightarrow> exn + 'a" where
  "try_except body handler =
     (case body of
        Inl e \<Rightarrow> if is_Exception e then handler e else Inl e
      | Inr v \<Rightarrow> Inr v)"

definition log :: "string \<Rightarrow> string \<Rightarrow> string \<Rightarrow> (string \<times> logval) list \<Rightarrow> action" where
  "log st sev msg fs = Log (Event st sev msg fs)"

subsection \<open>The outside world of one run\<close>

text \<open>
  Modelled from the spec: the converter, the enhancer, the model constructors, the
  summarizer (\<^verbatim>\<open>chunk_text\<close>, \<^verbatim>\<open>cluster_chunks\<close>, \<^verbatim>\<open>get_final_summary\<close>), the Whisper model
  and the generative model are not among the sources. They follow the call contracts of
  the specification: a conversion or enhancement yields a path or null, the constructors
  succeed or raise, the speech model and the generative model return or raise, and so does
  the emptying of a folder; what they raise may be any exception. Each of them is called at
  most once in a run, so one run sees one answer of each; the folder cleanup runs once per
  folder and is a function of the folder.

  \<^verbatim>\<open>run_pipeline\<close> constructs \<^verbatim>\<open>Transcriber(model_name=..., senopati_model=...)\<close> imported from
  app.pipelines.transcriber; the constructor it reaches is not the one of the class in
  app/pipelines/summarizer.py (which takes \<^verbatim>\<open>gemini_model\<close>), so the result of the two
  constructor calls is an answer of the world as well.
\<close>

record 'cs world =
  file_exists :: bool
  video_converted :: "path option"
  audio_converted :: "path option"
  enhanced :: "path option"
  models_init :: "exn option"
  whisper_result :: "exn + (string \<times> string)"
  generated :: "exn + string"
  chunked :: "string list"
  clustered :: clusters
  summarized :: "'cs \<times> string"
  cleanup_error :: "path \<Rightarrow> exn option"

subsection \<open>Strings and paths\<close>

text \<open>
  \<^verbatim>\<open>str.lower\<close> and \<^verbatim>\<open>str.strip\<close> on ASCII text (a \<^typ>\<open>char\<close> is a byte), and the
  attributes \<^verbatim>\<open>name\<close>, \<^verbatim>\<open>suffix\<close>, \<^verbatim>\<open>stem\<close> of a \<^verbatim>\<open>pathlib.Path\<close> given by its string form
  \<^verbatim>\<open>str(p)\<close>.
\<close>

definition lower_char :: "char \<Rightarrow> char" where
  "lower_char c =
     (let n = (of_char c :: nat) in if 65 \<le> n \<and> n \<le> 90 then char_of (n + 32) else c)"

definition lower :: "string \<Rightarrow> string" where
  "lower s = map lower_char s"

definition isspace :: "char \<Rightarrow> bool" where
  "isspace c = (let n = (of_char c :: nat) in (9 \<le> n \<and> n \<le> 13) \<or> (28 \<le> n \<and> n \<le> 32))"

definition strip :: "string \<Rightarrow> string" where
  "strip s = rev (dropWhile isspace (rev (dropWhile isspace s)))"

definition rfind :: "string \<Rightarrow> char \<Rightarrow> int" where
  "rfind s c =
     (if c \<in> set s then int (length s) - 1 - int (length (takeWhile (\<lambda>x. x \<noteq> c) (rev s)))
      else - 1)"

definition name :: "path \<Rightarrow> string" where
  "name p = (if p = ''.'' then [] else rev (takeWhile (\<lambda>c. c \<noteq> CHR ''/'') (rev p)))"

definition suffix :: "path \<Rightarrow> string" where
  "suffix p =
     (let n = name p; i = rfind n (CHR ''.'') in
      if 0 < i \<and> i < int (length n) - 1 then drop (nat i) n else [])"

definition stem :: "path \<Rightarrow> string" where
  "stem p =
     (let n = name p; i = rfind n (CHR ''.'') in
      if 0 < i \<and> i < int (length n) - 1 then take (nat i) n else n)"

definition apostrophe :: string where
  "apostrophe = [CHR 0x27]"

definition joinpath :: "path \<Rightarrow> string \<Rightarrow> path" where
  "joinpath d f = d @ ''/'' @ f"

subsection \<open>Transcriber\<close>

text \<open>
  \<^verbatim>\<open>transcribe\<close>: the call of the Whisper model sits in a \<^verbatim>\<open>try\<close>; the two handlers,
  for \<^verbatim>\<open>FileNotFoundError\<close> and for \<^verbatim>\<open>Exception\<close>, return \<^verbatim>\<open>None\<close>, the normal path
  returns the pair of text and language.
\<close>

definition transcribe ::
  "'cs world \<Rightarrow> path \<Rightarrow> string option \<Rightarrow> action list \<times> (exn + (string \<times> string) option)" where
  "transcribe w file_path language =
     (let options = (case language of None \<Rightarrow> None
                     | Some l \<Rightarrow> if l \<noteq> [] then Some l else None)
      in ([WhisperTranscribe file_path options],
          try_except
            (case whisper_result w of
               Inl e \<Rightarrow> Inl e
             | Inr (text, lang) \<Rightarrow> Inr (Some (text, lang)))
            (\<lambda>e. Inr None)))"

text \<open>
  \<^verbatim>\<open>language_rules\<close>: the prompt is built outside the \<^verbatim>\<open>try\<close>; the call of the
  generative model and the reading of \<^verbatim>\<open>response.text\<close> are inside it.
\<close>

definition prompt :: "string \<Rightarrow> string \<Rightarrow> string" where
  "prompt transcript language =
     ''You are a language expert. Please correct the following transcript '' @
     ''without changing the original meaning, just adjusting the language rules.'' @
     ''according to the rules of the '' @ language @ '' transcription:\<newline>\<newline>'' @ transcript"

definition language_rules ::
  "'cs world \<Rightarrow> string \<Rightarrow> string \<Rightarrow> action list \<times> (exn + string)" where
  "language_rules w transcript language =
     ([GenerateContent (prompt transcript language)],
      try_except
        (case generated w of Inl e \<Rightarrow> Inl e | Inr text \<Rightarrow> Inr (strip text))
        (\<lambda>e. Inr transcript))"

subsection \<open>The stages of run\_pipeline\<close>

definition type_supported :: "string list" where
  "type_supported =
     [''.mp4'', ''.mkv'', ''.mov'', ''.mp3'', ''.wav'', ''.m4a'', ''.flac'', ''.ogg'']"

text \<open>The two literal lists of lines 54 and 66.\<close>

definition video_types :: "string list" where
  "video_types = [''.mp4'', ''.mkv'', ''.mov'']"

definition audio_types :: "string list" where
  "audio_types = [''.mp3'', ''.wav'', ''.m4a'', ''.flac'', ''.ogg'']"

text \<open>Lines 36 to 51: the first event and the validation of the input.\<close>

definition validation ::
  "'cs world \<Rightarrow> path \<Rightarrow> bool \<Rightarrow> bool \<Rightarrow> string \<Rightarrow> (string, 'cs) stage" where
  "validation w input_file denoise aggressive_denoise transcriber_model =
     (let t0 = [log ''INITIALIZATION'' ''INFO'' ''Starting audio/video processing pipeline''
                  [(''input_file'', LStr input_file),
                   (''transcriber_model'', LStr transcriber_model),
                   (''denoise_enabled'', LBool denoise),
                   (''aggressive_denoise'', LBool aggressive_denoise)]]
      in if \<not> file_exists w then
           (t0 @ [log ''FILE_VALIDATION'' ''ERROR'' (''Input file not found: '' @ input_file) []],
            Stop (Returned [(''error'', PStr (''File not found: '' @ input_file))]))
         else
           let input_type = lower (suffix input_file)
           in if input_type \<notin> set type_supported then
                (t0 @ [log ''FILE_VALIDATION'' ''ERROR''
                         (''Unsupported file type: '' @ input_type) []],
                 Stop (Returned [(''error'', PStr (''Unsupported file type: '' @ input_type))]))
              else
                (t0 @ [log ''FILE_VALIDATION'' ''SUCCESS'' ''Input file validated''
                         [(''file_type'', LStr input_type)]],
                 Next input_type))"

text \<open>
  Lines 52 to 80: conversion to the canonical encoding. The variable \<^verbatim>\<open>audio_path\<close> starts
  as \<^verbatim>\<open>None\<close> and stays so when neither branch is taken.
\<close>

definition normalization ::
  "'cs world \<Rightarrow> path \<Rightarrow> string \<Rightarrow> bool \<Rightarrow> (path option, 'cs) stage" where
  "normalization w input_file input_type force_wav =
     (let t0 = [log ''AUDIO_CONVERSION'' ''INFO'' ''Starting audio format standardization'' []]
      in if input_type \<in> set video_types then
           let output_dir = ''data/audio'';
               audio_path = joinpath output_dir (stem input_file @ ''.wav'');
               t1 = t0 @ [log ''VIDEO_PROCESSING'' ''INFO''
                            (''Processing video file: '' @ apostrophe @ name input_file @ apostrophe) [],
                          Mkdir output_dir,
                          ConvertVideo input_file audio_path]
           in (case video_converted w of
                 None \<Rightarrow>
                   (t1 @ [log ''VIDEO_PROCESSING'' ''ERROR'' ''Video conversion failed'' []],
                    Stop (Returned [(''error'', PStr ''Video conversion failed'')]))
               | Some _ \<Rightarrow>
                   (t1 @ [log ''VIDEO_PROCESSING'' ''SUCCESS'' ''Video converted to audio''
                            [(''output_file'', LStr audio_path)]],
                    Next (Some audio_path)))
         else if input_type \<in> set audio_types then
           let t1 = t0 @ [log ''AUDIO_PROCESSING'' ''INFO''
                            (''Processing audio file: '' @ apostrophe @ name input_file @ apostrophe) []]
           in if input_type \<noteq> ''.wav'' \<or> force_wav then
                let output_dir = ''data/audio'';
                    audio_path = joinpath output_dir (stem input_file @ ''_standardized.wav'');
                    t2 = t1 @ [Mkdir output_dir, ConvertAudio input_file audio_path]
                in (case audio_converted w of
                      None \<Rightarrow>
                        (t2 @ [log ''AUDIO_PROCESSING'' ''WARNING''
                                 ''Audio format conversion failed. Using original file.'' []],
                         Next (Some input_file))
                    | Some _ \<Rightarrow>
                        (t2 @ [log ''AUDIO_PROCESSING'' ''SUCCESS'' ''Audio format standardized''
                                 [(''output_file'', LStr audio_path)]],
                         Next (Some audio_path)))
              else
                (t1 @ [log ''AUDIO_PROCESSING'' ''INFO''
                         (''Using WAV file directly: '' @ name input_file) []],
                 Next (Some input_file))
         else (t0, Next None))"

text \<open>Lines 82 to 91: the enhancement gate.\<close>

definition enhancement ::
  "'cs world \<Rightarrow> path option \<Rightarrow> bool \<Rightarrow> bool \<Rightarrow> (path option, 'cs) stage" where
  "enhancement w audio_path denoise aggressive_denoise =
     (if denoise \<or> aggressive_denoise then
        let t0 = [log ''AUDIO_ENHANCEMENT'' ''INFO'' ''Starting audio enhancement''
                    [(''aggressive_mode'', LBool aggressive_denoise)],
                  Enhance audio_path aggressive_denoise]
        in (case enhanced w of
              Some enhanced_audio_path \<Rightarrow>
                (t0 @ [log ''AUDIO_ENHANCEMENT'' ''SUCCESS'' ''Audio enhancement completed'' []],
                 Next (Some enhanced_audio_path))
            | None \<Rightarrow>
                (t0 @ [log ''AUDIO_ENHANCEMENT'' ''ERROR''
                         ''Audio enhancement failed. Proceeding with original audio.'' []],
                 Next audio_path))
      else
        ([log ''AUDIO_ENHANCEMENT'' ''INFO'' ''Audio enhancement skipped by user choice'' []],
         Next audio_path))"

text \<open>
  Lines 93 to 100: the two constructors inside \<^verbatim>\<open>try\<close>, with the handler
  \<^verbatim>\<open>except Exception\<close>.
\<close>

definition model_init :: "'cs world \<Rightarrow> string \<Rightarrow> (unit, 'cs) stage" where
  "model_init w transcriber_model =
     (let t0 = [log ''MODEL_INIT'' ''INFO'' ''Initializing AI models'' [],
                InitModels transcriber_model]
      in (case models_init w of
            None \<Rightarrow>
              (t0 @ [log ''MODEL_INIT'' ''SUCCESS'' ''AI models initialized successfully'' []],
               Next ())
          | Some e \<Rightarrow>
              if is_Exception e then
                (t0 @ [log ''MODEL_INIT'' ''ERROR'' (''Initialization error: '' @ exn_str e) []],
                 Stop (Returned
                   [(''error'', PStr (''Model initialization failed: '' @ exn_str e))]))
              else (t0, Stop (Raised e))))"

text \<open>
  Lines 102 to 108 and 112 to 114. The message of the first event reads
  \<^verbatim>\<open>audio_path.name\<close>, which raises on \<^verbatim>\<open>None\<close>. The result of \<^verbatim>\<open>transcribe\<close> is unpacked
  into two variables, which raises \<^verbatim>\<open>TypeError\<close> when the result is \<^verbatim>\<open>None\<close>.
\<close>

definition transcription ::
  "'cs world \<Rightarrow> path option \<Rightarrow> string option \<Rightarrow> (string \<times> string, 'cs) stage" where
  "transcription w audio_path language =
     (case audio_path of
        None \<Rightarrow>
          ([], Stop (Raised (Exception ''AttributeError''
                 (apostrophe @ ''NoneType'' @ apostrophe @ '' object has no attribute '' @
                  apostrophe @ ''name'' @ apostrophe))))
      | Some ap \<Rightarrow>
          let t0 = [log ''TRANSCRIPTION'' ''INFO'' (''Starting transcription of: '' @ name ap) []]
          in (case transcribe w ap language of
                (tc, Inl e) \<Rightarrow> (t0 @ tc, Stop (Raised e))
              | (tc, Inr None) \<Rightarrow>
                  (t0 @ tc, Stop (Raised (Exception ''TypeError''
                     ''cannot unpack non-iterable NoneType object'')))
              | (tc, Inr (Some (result, detected_language))) \<Rightarrow>
                  if result \<noteq> [] then
                    (t0 @ tc @
                       [log ''TRANSCRIPTION'' ''SUCCESS'' ''Transcription completed''
                          [(''detected_language'', LStr detected_language),
                           (''transcript_length_chars'', LInt (int (length result)))]],
                     Next (result, detected_language))
                  else
                    (t0 @ tc @ [log ''TRANSCRIPTION'' ''ERROR'' ''Transcription failed'' []],
                     Stop (Returned [(''error'', PStr ''Transcription failed'')]))))"

text \<open>Lines 109 to 111: the correction of a transcript that is not empty.\<close>

definition correction :: "'cs world \<Rightarrow> string \<Rightarrow> string \<Rightarrow> (string, 'cs) stage" where
  "correction w result detected_language =
     (let t0 = [log ''CORRECTION'' ''INFO'' ''Applying language rule correction'' []]
      in (case language_rules w result detected_language of
            (tg, Inl e) \<Rightarrow> (t0 @ tg, Stop (Raised e))
          | (tg, Inr transcript) \<Rightarrow>
              (t0 @ tg @ [log ''CORRECTION'' ''SUCCESS'' ''Language correction applied'' []],
               Next transcript)))"

text \<open>Lines 116 to 121.\<close>

definition chunking :: "'cs world \<Rightarrow> string \<Rightarrow> int \<Rightarrow> (string list, 'cs) stage" where
  "chunking w transcript chunk_size =
     (let chunks = chunked w
      in ([log ''TEXT_PROCESSING'' ''INFO'' ''Starting text processing and summarization'' [],
           ChunkText transcript chunk_size,
           log ''TEXT_CHUNKING'' ''SUCCESS'' ''Text split into chunks''
             [(''num_chunks'', LInt (int (length chunks))), (''chunk_size'', LInt chunk_size)]],
          Next chunks))"

text \<open>Lines 123 to 131.\<close>

definition clustering :: "'cs world \<Rightarrow> string list \<Rightarrow> (clusters, 'cs) stage" where
  "clustering w chunks =
     (if length chunks > 7 then
        let clusters = clustered w
        in ([log ''CLUSTERING'' ''INFO'' ''Clustering chunks by topic'' [],
             ClusterChunks chunks,
             log ''CLUSTERING'' ''SUCCESS'' ''Topic clustering completed''
               [(''num_clusters'', LInt (int (length clusters)))]],
            Next clusters)
      else
        ([log ''CLUSTERING'' ''INFO'' ''Few Chunks - no clustering needed'' []],
         Next [(0, chunks)]))"

text \<open>Lines 133 to 137.\<close>

definition summarization :: "'cs world \<Rightarrow> clusters \<Rightarrow> string \<Rightarrow> ('cs \<times> string, 'cs) stage" where
  "summarization w clusters detected_language =
     (case summarized w of
        (cluster_summaries, final_summary) \<Rightarrow>
          ([log ''SUMMARIZATION'' ''INFO'' ''Generating comprehensive summary'' [],
            FinalSummary clusters detected_language,
            log ''SUMMARIZATION'' ''SUCCESS'' ''Final summary generated''
              [(''summary_length_chars'', LInt (int (length final_summary)))]],
           Next (cluster_summaries, final_summary)))"

text \<open>Lines 139 and 140: the closing event and \<^verbatim>\<open>save()\<close>.\<close>

definition completion :: "'cs world \<Rightarrow> (unit, 'cs) stage" where
  "completion w =
     ([log ''PIPELINE_COMPLETE'' ''SUCCESS'' ''Pipeline completed successfully'' [], Save],
      Next ())"

text \<open>
  Lines 142 to 151: the loop over the transient folders. An \<^verbatim>\<open>Exception\<close> raised while
  one folder is emptied is caught and logged, and the loop goes on with the next folder;
  any other exception leaves the loop and the run.
\<close>

definition temp_folders :: "path list" where
  "temp_folders = [''data/audio/enhanced'', ''data/temp'', ''data/audio'']"

fun cleanup :: "'cs world \<Rightarrow> path list \<Rightarrow> (unit, 'cs) stage" where
  "cleanup w [] = ([], Next ())"
| "cleanup w (folder # rest) =
     (case cleanup_error w folder of
        None \<Rightarrow> (case cleanup w rest of (t, r) \<Rightarrow> (CleanFolder folder # t, r))
      | Some e \<Rightarrow>
          if is_Exception e then
            (case cleanup w rest of
               (t, r) \<Rightarrow>
                 (CleanFolder folder #
                  log ''CLEANUP'' ''WARNING''
                    (''Failed to clean up '' @ folder @ '': '' @ exn_str e) [] # t,
                  r))
          else ([CleanFolder folder], Stop (Raised e)))"

subsection \<open>run\_pipeline\<close>

definition run_pipeline ::
  "'cs world \<Rightarrow> path \<Rightarrow> bool \<Rightarrow> bool \<Rightarrow> bool \<Rightarrow> string \<Rightarrow> int \<Rightarrow> string option
     \<Rightarrow> action list \<times> 'cs outcome" where
  "run_pipeline w input_file denoise aggressive_denoise force_wav transcriber_model
       chunk_size language =
     finish
       (and_then (validation w input_file denoise aggressive_denoise transcriber_model)
          (\<lambda>input_type.
       and_then (normalization w input_file input_type force_wav)
          (\<lambda>audio_path.
       and_then (enhancement w audio_path denoise aggressive_denoise)
          (\<lambda>audio_path.
       and_then (model_init w transcriber_model)
          (\<lambda>_.
       and_then (transcription w audio_path language)
          (\<lambda>(result, detected_language).
       and_then (correction w result detected_language)
          (\<lambda>transcript.
       and_then (chunking w transcript chunk_size)
          (\<lambda>chunks.
       and_then (clustering w chunks)
          (\<lambda>clusters.
       and_then (summarization w clusters detected_language)
          (\<lambda>(cluster_summaries, final_summary).
       and_then (completion w)
          (\<lambda>_.
       and_then (cleanup w temp_folders)
          (\<lambda>_.
            ([],
             Next [(''summary'', PStr final_summary),
                   (''transcript'', PStr transcript),
                   (''detected_language'', PStr detected_language),
                   (''chunks'', PStrList chunks),
                   (''cluster_summaries'', PObj cluster_summaries)])))))))))))))"

subsection \<open>The stages a run enters\<close>



subsection \<open>Observations on a run\<close>

text \<open>The events of a trace in the order of their emission, and the stage names they carry.\<close>

fun events :: "action list \<Rightarrow> event list" where
  "events [] = []"
| "events (Log e # t) = e # events t"
| "events (a # t) = events t"

definition stages_logged :: "action list \<Rightarrow> string list" where
  "stages_logged t = map stage (events t)"

text \<open>The audit log in outline: stage name and severity of each event, in order.\<close>

definition outline :: "action list \<Rightarrow> (string \<times> string) list" where
  "outline t = map (\<lambda>e. (stage e, severity e)) (events t)"

text \<open>Everything in a trace that is not an audit event: the calls, with their arguments.\<close>

fun is_call :: "action \<Rightarrow> bool" where
  "is_call (Log e) = False"
| "is_call a = True"

definition calls :: "action list \<Rightarrow> action list" where
  "calls t = filter is_call t"

text \<open>The calls of the enhancer.\<close>

fun is_enhance :: "action \<Rightarrow> bool" where
  "is_enhance (Enhance ap aggressive) = True"
| "is_enhance a = False"

text \<open>How often a run calls \<^verbatim>\<open>save()\<close>.\<close>

definition saves :: "action list \<Rightarrow> nat" where
  "saves t = count_list t Save"

text \<open>The two shapes of a returned dictionary.\<close>

fun is_str :: "'cs pyval \<Rightarrow> bool" where
  "is_str (PStr s) = True"
| "is_str v = False"

definition is_error_shape :: "'cs dict \<Rightarrow> bool" where
  "is_error_shape d = (map fst d = [''error''] \<and> list_all is_str (map snd d))"

definition is_success_shape :: "'cs dict \<Rightarrow> bool" where
  "is_success_shape d =
     (map fst d =
        [''summary'', ''transcript'', ''detected_language'', ''chunks'', ''cluster_summaries''])"







subsection \<open>A concrete world\<close>

text \<open>
  Every collaborator succeeds: the recording is transcribed to a short English text that
  fits one chunk, and nothing goes wrong while the transient folders are emptied.
\<close>

definition example_world :: "string list world" where
  "example_world =
     \<lparr> file_exists = True,
       video_converted = Some ''data/audio/talk.wav'',
       audio_converted = Some ''data/audio/talk_standardized.wav'',
       enhanced = Some ''data/audio/enhanced/talk.wav'',
       models_init = None,
       whisper_result = Inr ('' hello world'', ''en''),
       generated = Inr ''Hello world.'',
       chunked = [''Hello world.''],
       clustered = [],
       summarized = ([''A greeting.''], ''A greeting.''),
       cleanup_error = (\<lambda>folder. None) \<rparr>"

section \<open>Properties\<close>

subsection \<open>Composition of stages\<close>

lemma fst_and_then:
  "fst (and_then m f) = fst m @ (case snd m of Next x \<Rightarrow> fst (f x) | Stop out \<Rightarrow> [])"
  by (simp add: and_then_def split: prod.splits step.splits)

lemma snd_and_then:
  "snd (and_then m f) = (case snd m of Next x \<Rightarrow> snd (f x) | Stop out \<Rightarrow> Stop out)"
  by (simp add: and_then_def split: prod.splits step.splits)

lemma fst_finish: "fst (finish m) = fst m"
  by (simp add: finish_def split: prod.splits step.splits)

lemma snd_finish: "snd (finish m) = (case snd m of Next d \<Rightarrow> Returned d | Stop out \<Rightarrow> out)"
  by (simp add: finish_def split: prod.splits step.splits)



subsection \<open>Observations, event by event\<close>

lemma calls_Nil: "calls [] = []"
  by (simp add: calls_def)

lemma calls_append: "calls (t @ u) = calls t @ calls u"
  by (simp add: calls_def)

lemma calls_log: "calls (log st sev msg fs # t) = calls t"
  by (simp add: calls_def log_def)

lemma calls_call: "is_call a \<Longrightarrow> calls (a # t) = a # calls t"
  by (simp add: calls_def)

lemma in_calls: "is_call a \<Longrightarrow> a \<in> set (calls t) \<longleftrightarrow> a \<in> set t"
  by (simp add: calls_def)

lemma events_append: "events (t @ u) = events t @ events u"
  by (induction t rule: events.induct) simp_all

lemma outline_Nil: "outline [] = []"
  by (simp add: outline_def)

lemma outline_append: "outline (t @ u) = outline t @ outline u"
  by (simp add: outline_def events_append)

lemma outline_log: "outline (log st sev msg fs # t) = (st, sev) # outline t"
  by (simp add: outline_def log_def)

lemma outline_call: "is_call a \<Longrightarrow> outline (a # t) = outline t"
  by (cases a) (simp_all add: outline_def)

lemma stages_logged_outline: "stages_logged t = map fst (outline t)"
  by (simp add: stages_logged_def outline_def comp_def)

lemmas observe = calls_Nil calls_append calls_log calls_call outline_Nil outline_append
  outline_log outline_call

subsection \<open>The transcriber\<close>

lemma fst_transcribe:
  "fst (transcribe w x l) =
     [WhisperTranscribe x (case l of None \<Rightarrow> None | Some s \<Rightarrow> if s \<noteq> [] then Some s else None)]"
  by (simp add: transcribe_def)

lemma snd_transcribe:
  "snd (transcribe w x l) =
     (case whisper_result w of
        Inl e \<Rightarrow> if is_Exception e then Inr None else Inl e
      | Inr r \<Rightarrow> Inr (Some r))"
  by (simp add: transcribe_def try_except_def split: sum.splits)

lemma fst_language_rules: "fst (language_rules w t l) = [GenerateContent (prompt t l)]"
  by (simp add: language_rules_def)

lemma snd_language_rules:
  "snd (language_rules w t l) =
     (case generated w of
        Inl e \<Rightarrow> if is_Exception e then Inr t else Inl e
      | Inr r \<Rightarrow> Inr (strip r))"
  by (simp add: language_rules_def try_except_def split: sum.splits)

subsection \<open>The result of each stage\<close>

lemma snd_validation:
  "snd (validation w p d a m) =
     (if \<not> file_exists w then Stop (Returned [(''error'', PStr (''File not found: '' @ p))])
      else if lower (suffix p) \<notin> set type_supported then
        Stop (Returned [(''error'', PStr (''Unsupported file type: '' @ lower (suffix p)))])
      else Next (lower (suffix p)))"
  by (simp add: validation_def Let_def)

lemma snd_normalization:
  "snd (normalization w p it f) =
     (if it \<in> set video_types then
        (case video_converted w of
           None \<Rightarrow> Stop (Returned [(''error'', PStr ''Video conversion failed'')])
         | Some r \<Rightarrow> Next (Some (joinpath ''data/audio'' (stem p @ ''.wav''))))
      else if it \<in> set audio_types then
        Next (Some (if (it \<noteq> ''.wav'' \<or> f) \<and> audio_converted w \<noteq> None
                    then joinpath ''data/audio'' (stem p @ ''_standardized.wav'') else p))
      else Next None)"
  unfolding normalization_def Let_def
  by (simp split: option.splits)

lemma snd_enhancement:
  "snd (enhancement w ap d a) =
     Next (case (if d \<or> a then enhanced w else None) of None \<Rightarrow> ap | Some e \<Rightarrow> Some e)"
  unfolding enhancement_def Let_def
  by (simp split: option.splits)

lemma snd_enhancement_Some:
  "snd (enhancement w (Some x) d a) =
     Next (Some (case (if d \<or> a then enhanced w else None) of None \<Rightarrow> x | Some e \<Rightarrow> e))"
  by (simp add: snd_enhancement split: option.splits)

lemma snd_model_init:
  "snd (model_init w m) =
     (case models_init w of
        None \<Rightarrow> Next ()
      | Some e \<Rightarrow>
          if is_Exception e then
            Stop (Returned [(''error'', PStr (''Model initialization failed: '' @ exn_str e))])
          else Stop (Raised e))"
  unfolding model_init_def Let_def
  by (simp split: option.splits)

lemma transcription_None:
  "transcription w None l =
     ([], Stop (Raised (Exception ''AttributeError''
        (apostrophe @ ''NoneType'' @ apostrophe @ '' object has no attribute '' @
         apostrophe @ ''name'' @ apostrophe))))"
  by (simp add: transcription_def)

lemma snd_transcription:
  "snd (transcription w (Some x) l) =
     (case whisper_result w of
        Inl e \<Rightarrow>
          if is_Exception e then
            Stop (Raised (Exception ''TypeError'' ''cannot unpack non-iterable NoneType object''))
          else Stop (Raised e)
      | Inr (text, lang) \<Rightarrow>
          if text \<noteq> [] then Next (text, lang)
          else Stop (Returned [(''error'', PStr ''Transcription failed'')]))"
  unfolding transcription_def Let_def
  by (simp add: snd_transcribe case_prod_beta split: sum.splits)

lemma snd_correction:
  "snd (correction w t l) =
     (case generated w of
        Inl e \<Rightarrow> if is_Exception e then Next t else Stop (Raised e)
      | Inr r \<Rightarrow> Next (strip r))"
  unfolding correction_def Let_def
  by (simp add: snd_language_rules case_prod_beta split: sum.splits)

lemma snd_chunking: "snd (chunking w t c) = Next (chunked w)"
  by (simp add: chunking_def Let_def)

lemma snd_clustering:
  "snd (clustering w c) = Next (if 7 < length c then clustered w else [(0, c)])"
  by (simp add: clustering_def Let_def)

lemma snd_summarization: "snd (summarization w c l) = Next (summarized w)"
  by (simp add: summarization_def split: prod.splits)

lemma snd_completion: "snd (completion w) = Next ()"
  by (simp add: completion_def)

subsection \<open>How each stage can end\<close>

lemma validation_stop:
  "snd (validation w p d a m) = Stop (Returned r) \<Longrightarrow> is_error_shape r"
  by (auto simp: snd_validation is_error_shape_def split: if_splits)

lemma normalization_stop:
  "snd (normalization w p it f) = Stop (Returned r) \<Longrightarrow> is_error_shape r"
  by (auto simp: snd_normalization is_error_shape_def split: option.splits if_splits)

lemma enhancement_never_stops: "snd (enhancement w ap d a) \<noteq> Stop out"
  by (simp add: snd_enhancement)

lemma model_init_stop:
  "snd (model_init w m) = Stop (Returned r) \<Longrightarrow> is_error_shape r"
  by (auto simp: snd_model_init is_error_shape_def split: option.splits if_splits)

lemma transcription_stop:
  "snd (transcription w ap l) = Stop (Returned r) \<Longrightarrow> is_error_shape r"
  by (cases ap)
    (auto simp: transcription_None snd_transcription is_error_shape_def
      split: sum.splits prod.splits if_splits)

lemma correction_stop: "snd (correction w t l) \<noteq> Stop (Returned r)"
  by (simp add: snd_correction split: sum.splits)

lemma cleanup_Nil: "fst (cleanup w []) = []" "snd (cleanup w []) = Next ()"
  by simp_all

lemma snd_cleanup_Cons:
  "snd (cleanup w (folder # rest)) =
     (case cleanup_error w folder of
        None \<Rightarrow> snd (cleanup w rest)
      | Some e \<Rightarrow> if is_Exception e then snd (cleanup w rest) else Stop (Raised e))"
  by (simp add: case_prod_beta split: option.splits)

lemma fst_cleanup_Cons:
  "fst (cleanup w (folder # rest)) =
     CleanFolder folder #
     (case cleanup_error w folder of
        None \<Rightarrow> fst (cleanup w rest)
      | Some e \<Rightarrow>
          if is_Exception e then
            log ''CLEANUP'' ''WARNING''
              (''Failed to clean up '' @ folder @ '': '' @ exn_str e) [] # fst (cleanup w rest)
          else [])"
  by (simp add: case_prod_beta split: option.splits)

lemma cleanup_stop: "snd (cleanup w fs) \<noteq> Stop (Returned r)"
  by (induction fs) (simp_all add: cleanup_Nil snd_cleanup_Cons del: cleanup.simps split: option.splits)

subsection \<open>The calls of each stage\<close>

lemma calls_validation: "calls (fst (validation w p d a m)) = []"
  unfolding validation_def Let_def by (simp add: observe)

lemma calls_normalization:
  "calls (fst (normalization w p it f)) =
     (if it \<in> set video_types then
        [Mkdir ''data/audio'', ConvertVideo p (joinpath ''data/audio'' (stem p @ ''.wav''))]
      else if it \<in> set audio_types \<and> (it \<noteq> ''.wav'' \<or> f) then
        [Mkdir ''data/audio'',
         ConvertAudio p (joinpath ''data/audio'' (stem p @ ''_standardized.wav''))]
      else [])"
  unfolding normalization_def Let_def
  by (simp add: observe split: option.splits)

lemma calls_enhancement:
  "calls (fst (enhancement w ap d a)) = (if d \<or> a then [Enhance ap a] else [])"
  unfolding enhancement_def Let_def
  by (simp add: observe split: option.splits)

lemma calls_model_init: "calls (fst (model_init w m)) = [InitModels m]"
  unfolding model_init_def Let_def
  by (simp add: observe split: option.splits)

lemma calls_transcription:
  "calls (fst (transcription w ap l)) =
     (case ap of None \<Rightarrow> [] | Some x \<Rightarrow> fst (transcribe w x l))"
  unfolding transcription_def Let_def
  by (simp add: observe fst_transcribe snd_transcribe case_prod_beta
      split: option.splits sum.splits)

lemma calls_correction: "calls (fst (correction w t l)) = [GenerateContent (prompt t l)]"
  unfolding correction_def Let_def
  by (simp add: observe fst_language_rules snd_language_rules case_prod_beta split: sum.splits)

lemma calls_chunking: "calls (fst (chunking w t c)) = [ChunkText t c]"
  unfolding chunking_def Let_def by (simp add: observe)

lemma calls_clustering:
  "calls (fst (clustering w c)) = (if 7 < length c then [ClusterChunks c] else [])"
  unfolding clustering_def Let_def by (simp add: observe)

lemma calls_summarization: "calls (fst (summarization w c l)) = [FinalSummary c l]"
  unfolding summarization_def by (simp add: observe split: prod.splits)

lemma calls_completion: "calls (fst (completion w)) = [Save]"
  unfolding completion_def by (simp add: observe)

lemma calls_cleanup: "set (calls (fst (cleanup w fs))) \<subseteq> CleanFolder ` set fs"
  by (induction fs) (auto simp: observe cleanup_Nil fst_cleanup_Cons simp del: cleanup.simps split: option.splits)

lemma calls_cleanup_done:
  "snd (cleanup w fs) = Next u \<Longrightarrow> calls (fst (cleanup w fs)) = map CleanFolder fs"
  by (induction fs)
    (auto simp: observe cleanup_Nil fst_cleanup_Cons snd_cleanup_Cons simp del: cleanup.simps
      split: option.splits if_splits)

lemmas calls_stage = calls_validation calls_normalization calls_enhancement
  calls_model_init calls_transcription calls_correction calls_chunking calls_clustering
  calls_summarization calls_completion

subsection \<open>The events of each stage\<close>

lemma outline_validation:
  "outline (fst (validation w p d a m)) =
     (''INITIALIZATION'', ''INFO'') #
     (if file_exists w \<and> lower (suffix p) \<in> set type_supported
      then [(''FILE_VALIDATION'', ''SUCCESS'')] else [(''FILE_VALIDATION'', ''ERROR'')])"
  unfolding validation_def Let_def by (simp add: observe)

lemma outline_normalization:
  "outline (fst (normalization w p it f)) =
     (''AUDIO_CONVERSION'', ''INFO'') #
     (if it \<in> set video_types then
        [(''VIDEO_PROCESSING'', ''INFO''),
         (''VIDEO_PROCESSING'', if video_converted w = None then ''ERROR'' else ''SUCCESS'')]
      else if it \<in> set audio_types then
        [(''AUDIO_PROCESSING'', ''INFO''),
         (''AUDIO_PROCESSING'',
          if it \<noteq> ''.wav'' \<or> f
          then (if audio_converted w = None then ''WARNING'' else ''SUCCESS'') else ''INFO'')]
      else [])"
  unfolding normalization_def Let_def by (simp add: observe split: option.splits)



lemma outline_transcription:
  "outline (fst (transcription w ap l)) =
     (case ap of
        None \<Rightarrow> []
      | Some x \<Rightarrow>
          (''TRANSCRIPTION'', ''INFO'') #
          (case whisper_result w of
             Inl e \<Rightarrow> []
           | Inr (text, lang) \<Rightarrow>
               if text \<noteq> [] then [(''TRANSCRIPTION'', ''SUCCESS'')]
               else [(''TRANSCRIPTION'', ''ERROR'')]))"
  unfolding transcription_def Let_def
  by (simp add: observe fst_transcribe snd_transcribe case_prod_beta
      split: option.splits sum.splits)








subsection \<open>A whole run\<close>

lemma fst_run:
  "fst (run_pipeline w p d a f m c l) =
     fst (validation w p d a m) @
     (case snd (validation w p d a m) of Stop out \<Rightarrow> [] | Next it \<Rightarrow>
        fst (normalization w p it f) @
        (case snd (normalization w p it f) of Stop out \<Rightarrow> [] | Next ap \<Rightarrow>
           fst (enhancement w ap d a) @
           (case snd (enhancement w ap d a) of Stop out \<Rightarrow> [] | Next ap' \<Rightarrow>
              fst (model_init w m) @
              (case snd (model_init w m) of Stop out \<Rightarrow> [] | Next u \<Rightarrow>
                 fst (transcription w ap' l) @
                 (case snd (transcription w ap' l) of Stop out \<Rightarrow> [] | Next r \<Rightarrow>
                    fst (correction w (fst r) (snd r)) @
                    (case snd (correction w (fst r) (snd r)) of Stop out \<Rightarrow> []
                     | Next transcript \<Rightarrow>
                         fst (chunking w transcript c) @
                         fst (clustering w (chunked w)) @
                         fst (summarization w
                                (if 7 < length (chunked w) then clustered w
                                 else [(0, chunked w)])
                                (snd r)) @
                         fst (completion w) @
                         fst (cleanup w temp_folders)))))))"
  unfolding run_pipeline_def
  by (simp add: fst_finish fst_and_then snd_and_then snd_chunking snd_clustering
        snd_summarization snd_completion case_prod_beta split: step.splits)

lemma snd_run:
  "snd (run_pipeline w p d a f m c l) =
     (case snd (validation w p d a m) of Stop out \<Rightarrow> out | Next it \<Rightarrow>
        (case snd (normalization w p it f) of Stop out \<Rightarrow> out | Next ap \<Rightarrow>
           (case snd (enhancement w ap d a) of Stop out \<Rightarrow> out | Next ap' \<Rightarrow>
              (case snd (model_init w m) of Stop out \<Rightarrow> out | Next u \<Rightarrow>
                 (case snd (transcription w ap' l) of Stop out \<Rightarrow> out | Next r \<Rightarrow>
                    (case snd (correction w (fst r) (snd r)) of Stop out \<Rightarrow> out
                     | Next transcript \<Rightarrow>
                        (case snd (cleanup w temp_folders) of Stop out \<Rightarrow> out
                         | Next u \<Rightarrow>
                             Returned [(''summary'', PStr (snd (summarized w))),
                                       (''transcript'', PStr transcript),
                                       (''detected_language'', PStr (snd r)),
                                       (''chunks'', PStrList (chunked w)),
                                       (''cluster_summaries'',
                                        PObj (fst (summarized w)))])))))))"
  unfolding run_pipeline_def
  by (simp add: snd_finish snd_and_then snd_chunking snd_clustering
        snd_summarization snd_completion case_prod_beta split: step.splits)

lemma calls_run:
  "calls (fst (run_pipeline w p d a f m c l)) =
     (case snd (validation w p d a m) of Stop out \<Rightarrow> [] | Next it \<Rightarrow>
        calls (fst (normalization w p it f)) @
        (case snd (normalization w p it f) of Stop out \<Rightarrow> [] | Next ap \<Rightarrow>
           calls (fst (enhancement w ap d a)) @
           (case snd (enhancement w ap d a) of Stop out \<Rightarrow> [] | Next ap' \<Rightarrow>
              InitModels m #
              (case snd (model_init w m) of Stop out \<Rightarrow> [] | Next u \<Rightarrow>
                 calls (fst (transcription w ap' l)) @
                 (case snd (transcription w ap' l) of Stop out \<Rightarrow> [] | Next r \<Rightarrow>
                    GenerateContent (prompt (fst r) (snd r)) #
                    (case snd (correction w (fst r) (snd r)) of Stop out \<Rightarrow> []
                     | Next transcript \<Rightarrow>
                         ChunkText transcript c #
                         (if 7 < length (chunked w) then [ClusterChunks (chunked w)] else []) @
                         [FinalSummary
                            (if 7 < length (chunked w) then clustered w
                             else [(0, chunked w)]) (snd r),
                          Save] @
                         calls (fst (cleanup w temp_folders))))))))"
  by (simp add: fst_run calls_Nil calls_append calls_validation calls_model_init
      calls_correction calls_chunking calls_clustering calls_summarization calls_completion
      split: step.splits)

subsection \<open>The stages of a run and its trace\<close>




subsection \<open>Supported types\<close>

lemma types_supported:
  "it \<in> set type_supported \<longleftrightarrow> it \<in> set video_types \<or> it \<in> set audio_types"
  by (auto simp: type_supported_def video_types_def audio_types_def)

lemma audio_not_video: "it \<in> set audio_types \<Longrightarrow> it \<notin> set video_types"
  by (auto simp: video_types_def audio_types_def)

lemma video_supported: "it \<in> set video_types \<Longrightarrow> it \<in> set type_supported"
  by (simp add: types_supported)

lemma audio_supported: "it \<in> set audio_types \<Longrightarrow> it \<in> set type_supported"
  by (simp add: types_supported)


lemma validation_Next: "snd (validation w p d a m) = Next it \<Longrightarrow> it \<in> set type_supported"
  by (auto simp: snd_validation split: if_splits)

lemma normalization_result:
  assumes "it \<in> set type_supported"
  shows "(\<forall>p. snd (normalization w p it f) =
              Stop (Returned [(''error'', PStr ''Video conversion failed'')])) \<or>
         (\<forall>p. \<exists>x. snd (normalization w p it f) = Next (Some x))"
  using assms
  by (cases "video_converted w") (auto simp: snd_normalization types_supported)

lemma normalization_Next:
  "it \<in> set type_supported \<Longrightarrow> snd (normalization w p it f) = Next ap \<Longrightarrow> \<exists>x. ap = Some x"
  using normalization_result [of it w f] by (metis step.inject(1) step.distinct(1))

lemma enhancement_Some: "\<exists>x'. snd (enhancement w (Some x) d a) = Next (Some x')"
  by (simp add: snd_enhancement split: option.splits)

lemma enhancement_Next:
  "snd (enhancement w (Some x) d a) = Next ap \<Longrightarrow> \<exists>x'. ap = Some x'"
  using enhancement_Some [of w x d a] by auto

lemma reaches_enhancement:
  assumes "file_exists w" "lower (suffix p) \<in> set type_supported"
    "lower (suffix p) \<in> set video_types \<longrightarrow> video_converted w \<noteq> None"
  shows "snd (validation w p d a m) = Next (lower (suffix p)) \<and>
    (\<exists>ap. snd (normalization w p (lower (suffix p)) f) = Next (Some ap))"
  using assms
  by (auto simp: snd_validation snd_normalization types_supported split: option.splits)

subsection \<open>A transcription that yields nothing\<close>

lemma transcription_null:
  "whisper_result w = Inl e \<Longrightarrow> is_Exception e \<Longrightarrow>
   snd (transcription w (Some x) l) =
     Stop (Raised (Exception ''TypeError'' ''cannot unpack non-iterable NoneType object''))"
  by (simp add: snd_transcription)

lemma transcription_empty:
  "whisper_result w = Inr ([], lang) \<Longrightarrow>
   snd (transcription w (Some x) l) =
     Stop (Returned [(''error'', PStr ''Transcription failed'')])"
  by (simp add: snd_transcription)

subsection \<open>Calls that come late in a run\<close>

lemma early_calls:
  "ChunkText x y \<notin> set (calls (fst (normalization w p it f)))"
  "ClusterChunks z \<notin> set (calls (fst (normalization w p it f)))"
  "FinalSummary u v \<notin> set (calls (fst (normalization w p it f)))"
  "ChunkText x y \<notin> set (calls (fst (enhancement w ap d a)))"
  "ClusterChunks z \<notin> set (calls (fst (enhancement w ap d a)))"
  "FinalSummary u v \<notin> set (calls (fst (enhancement w ap d a)))"
  "ChunkText x y \<notin> set (calls (fst (transcription w ap l)))"
  "ClusterChunks z \<notin> set (calls (fst (transcription w ap l)))"
  "FinalSummary u v \<notin> set (calls (fst (transcription w ap l)))"
  by (simp_all add: calls_normalization calls_enhancement calls_transcription fst_transcribe
      split: option.splits)

lemma cleanup_calls:
  "ChunkText x y \<notin> set (calls (fst (cleanup w fs)))"
  "ClusterChunks z \<notin> set (calls (fst (cleanup w fs)))"
  "FinalSummary u v \<notin> set (calls (fst (cleanup w fs)))"
  "Enhance ap ag \<notin> set (calls (fst (cleanup w fs)))"
  "WhisperTranscribe q o' \<notin> set (calls (fst (cleanup w fs)))"
  "Save \<notin> set (calls (fst (cleanup w fs)))"
  using calls_cleanup [of w fs] by auto

subsection \<open>Persisting the log\<close>

lemma saves_Nil: "saves [] = 0"
  by (simp add: saves_def)

lemma saves_Cons: "saves (x # t) = (if x = Save then 1 else 0) + saves t"
  by (simp add: saves_def)

lemma saves_append: "saves (t @ u) = saves t + saves u"
  by (induction t) (simp_all add: saves_def)

lemma saves_calls: "saves (calls t) = saves t"
  by (induction t) (auto simp: saves_def calls_def)

lemma saves_none: "Save \<notin> set t \<Longrightarrow> saves t = 0"
  by (induction t) (auto simp: saves_def)

lemma saves_early:
  "saves (calls (fst (normalization w p it f))) = 0"
  "saves (calls (fst (enhancement w ap d a))) = 0"
  "saves (calls (fst (transcription w ap l))) = 0"
  "saves (calls (fst (cleanup w fs))) = 0"
  by (simp_all add: saves_none cleanup_calls calls_normalization calls_enhancement
      calls_transcription fst_transcribe split: option.splits)

lemma saves_run:
  "snd (run_pipeline w p d a f m c l) = Returned r \<Longrightarrow>
   saves (fst (run_pipeline w p d a f m c l)) = (if is_success_shape r then 1 else 0)"
proof -
  assume r: "snd (run_pipeline w p d a f m c l) = Returned r"
  have "saves (fst (run_pipeline w p d a f m c l)) =
      saves (calls (fst (run_pipeline w p d a f m c l)))"
    by (simp add: saves_calls)
  also have "\<dots> = (if is_success_shape r then 1 else 0)"
    using r unfolding calls_run snd_run
    by (auto simp: saves_append saves_early saves_Nil saves_Cons
          is_success_shape_def is_error_shape_def enhancement_never_stops
          correction_stop cleanup_stop
        split: step.splits
        dest: validation_stop normalization_stop model_init_stop transcription_stop)
  finally show ?thesis .
qed

subsection \<open>The calls of the enhancer\<close>

lemma enhance_calls:
  "Enhance x y \<notin> set (calls (fst (normalization w p it f)))"
  "Enhance x y \<notin> set (calls (fst (transcription w ap l)))"
  "filter (\<lambda>x. \<not> is_enhance x) (calls (fst (normalization w p it f))) =
     calls (fst (normalization w p it f))"
  "filter (\<lambda>x. \<not> is_enhance x) (calls (fst (transcription w ap l))) =
     calls (fst (transcription w ap l))"
  by (simp_all add: calls_normalization calls_transcription fst_transcribe split: option.splits)

lemma enhance_cleanup:
  "filter (\<lambda>x. \<not> is_enhance x) (calls (fst (cleanup w fs))) = calls (fst (cleanup w fs))"
  using calls_cleanup [of w fs] by (auto simp: filter_id_conv)

lemma enhancement_failed:
  "d \<or> a \<Longrightarrow> enhanced w = None \<Longrightarrow>
   enhancement w ap d a =
     ([log ''AUDIO_ENHANCEMENT'' ''INFO'' ''Starting audio enhancement''
         [(''aggressive_mode'', LBool a)],
       Enhance ap a,
       log ''AUDIO_ENHANCEMENT'' ''ERROR''
         ''Audio enhancement failed. Proceeding with original audio.'' []],
      Next ap)"
  by (simp add: enhancement_def)

subsection \<open>Stages and their events\<close>























lemma stages_reached:
  assumes "snd (validation w p d a m) = Next it"
  shows "it \<in> set type_supported"
    and "snd (normalization w p it f) = Next ap \<Longrightarrow> \<exists>x. ap = Some x"
    and "snd (normalization w p it f) = Next ap \<Longrightarrow>
         snd (enhancement w ap d a) = Next ap' \<Longrightarrow> \<exists>x'. ap' = Some x'"
  using assms validation_Next normalization_Next enhancement_Next by blast+





section \<open>Claims\<close>

text \<open>
  C1. The specification says that a null result of \<^verbatim>\<open>transcribe\<close> ends the run with the returned
  error \<^verbatim>\<open>Transcription failed\<close>. Here the Whisper model raises on an existing WAV file,
  \<^verbatim>\<open>transcribe\<close> catches the exception and returns \<^verbatim>\<open>None\<close>, and the unpacking of that
  result into two variables raises \<^verbatim>\<open>TypeError\<close>: the run ends with an exception instead
  of the error dictionary, and the last event of its log is the TRANSCRIPTION start event.
  Lemma \<open>transcription_null\<close> has the same for every world in which the model raises an
  exception that \<^verbatim>\<open>except Exception\<close> catches; an empty text does end the run with the
  returned error (\<open>transcription_empty\<close>).
\<close>

theorem C1_transcribe_null_raises:
  "snd (transcribe (example_world\<lparr>whisper_result := Inl (Exception ''RuntimeError'' ''failed to load audio'')\<rparr>)
          ''talk.wav'' None) = Inr None \<and>
   snd (run_pipeline (example_world\<lparr>whisper_result := Inl (Exception ''RuntimeError'' ''failed to load audio'')\<rparr>)
          ''talk.wav'' False False False ''small'' 2000 None) =
     Raised (Exception ''TypeError'' ''cannot unpack non-iterable NoneType object'') \<and>
   outline (fst (run_pipeline (example_world\<lparr>whisper_result := Inl (Exception ''RuntimeError'' ''failed to load audio'')\<rparr>)
          ''talk.wav'' False False False ''small'' 2000 None)) =
     [(''INITIALIZATION'', ''INFO''), (''FILE_VALIDATION'', ''SUCCESS''),
      (''AUDIO_CONVERSION'', ''INFO''), (''AUDIO_PROCESSING'', ''INFO''),
      (''AUDIO_PROCESSING'', ''INFO''), (''AUDIO_ENHANCEMENT'', ''INFO''),
      (''MODEL_INIT'', ''INFO''), (''MODEL_INIT'', ''SUCCESS''),
      (''TRANSCRIPTION'', ''INFO'')]"
  by code_simp

text \<open>
  C2, as the code has it. For a video input whose conversion returns null the run returns
  the error \<^verbatim>\<open>Video conversion failed\<close>, logs no TRANSCRIPTION event and never calls the
  speech model. For an audio input whose standardization returns null the run logs the
  AUDIO\_PROCESSING warning and goes on with the original input path as the audio
  artifact: it is the path given to the enhancer when a denoise flag is set, and when the
  models initialise the transcription stage is reached and the speech model receives the
  original input path, unless enhancement was requested and returned a path, which it
  then receives instead.
\<close>

theorem C2_normalization_failure:
  "(file_exists w \<and> lower (suffix p) \<in> set video_types \<and> video_converted w = None \<longrightarrow>
      snd (run_pipeline w p d a f m c l) =
        Returned [(''error'', PStr ''Video conversion failed'')] \<and>
      ''TRANSCRIPTION'' \<notin> set (stages_logged (fst (run_pipeline w p d a f m c l))) \<and>
      (\<forall>x opts. WhisperTranscribe x opts \<notin> set (fst (run_pipeline w p d a f m c l)))) \<and>
   (file_exists w \<and> lower (suffix p) \<in> set audio_types \<and>
    (lower (suffix p) \<noteq> ''.wav'' \<or> f) \<and> audio_converted w = None \<longrightarrow>
      log ''AUDIO_PROCESSING'' ''WARNING''
          ''Audio format conversion failed. Using original file.'' []
        \<in> set (fst (run_pipeline w p d a f m c l)) \<and>
      (d \<or> a \<longrightarrow> Enhance (Some p) a \<in> set (fst (run_pipeline w p d a f m c l))) \<and>
      (models_init w = None \<longrightarrow>
         (''TRANSCRIPTION'', ''INFO'') \<in> set (outline (fst (run_pipeline w p d a f m c l))) \<and>
         WhisperTranscribe
           (case (if d \<or> a then enhanced w else None) of None \<Rightarrow> p | Some e \<Rightarrow> e)
           (case l of None \<Rightarrow> None | Some s \<Rightarrow> if s \<noteq> [] then Some s else None)
         \<in> set (fst (run_pipeline w p d a f m c l))))"
proof (intro conjI impI allI)
  assume h: "file_exists w \<and> lower (suffix p) \<in> set video_types \<and> video_converted w = None"
  then have v: "snd (validation w p d a m) = Next (lower (suffix p))"
    by (simp add: snd_validation video_supported)
  have n: "snd (normalization w p (lower (suffix p)) f) =
      Stop (Returned [(''error'', PStr ''Video conversion failed'')])"
    using h by (simp add: snd_normalization)
  show "snd (run_pipeline w p d a f m c l) =
        Returned [(''error'', PStr ''Video conversion failed'')]"
    by (simp add: snd_run v n)
  show "''TRANSCRIPTION'' \<notin> set (stages_logged (fst (run_pipeline w p d a f m c l)))"
    using h
    by (simp add: stages_logged_outline fst_run v n outline_append outline_validation
        outline_normalization video_supported)
  fix x opts
  have "WhisperTranscribe x opts \<notin> set (calls (fst (run_pipeline w p d a f m c l)))"
    using h by (simp add: calls_run v n calls_normalization)
  then show "WhisperTranscribe x opts \<notin> set (fst (run_pipeline w p d a f m c l))"
    by (simp add: in_calls)
next
  assume h: "file_exists w \<and> lower (suffix p) \<in> set audio_types \<and>
    (lower (suffix p) \<noteq> ''.wav'' \<or> f) \<and> audio_converted w = None"
  then have v: "snd (validation w p d a m) = Next (lower (suffix p))"
    by (simp add: snd_validation audio_supported)
  have nv: "lower (suffix p) \<notin> set video_types"
    using h by (simp add: audio_not_video)
  have n: "snd (normalization w p (lower (suffix p)) f) = Next (Some p)"
    using h nv by (simp add: snd_normalization)
  have warned: "log ''AUDIO_PROCESSING'' ''WARNING''
           ''Audio format conversion failed. Using original file.'' []
         \<in> set (fst (normalization w p (lower (suffix p)) f))"
    using h nv by (auto simp: normalization_def Let_def)
  show "log ''AUDIO_PROCESSING'' ''WARNING''
          ''Audio format conversion failed. Using original file.'' []
        \<in> set (fst (run_pipeline w p d a f m c l))"
    using warned by (simp add: fst_run v n)
  {
    assume "d \<or> a"
    then have "Enhance (Some p) a \<in> set (calls (fst (run_pipeline w p d a f m c l)))"
      by (simp add: calls_run v n calls_enhancement)
    then show "Enhance (Some p) a \<in> set (fst (run_pipeline w p d a f m c l))"
      by (simp add: in_calls)
  }
  assume i: "models_init w = None"
  let ?ap = "case (if d \<or> a then enhanced w else None) of None \<Rightarrow> p | Some e \<Rightarrow> e"
  have e: "snd (enhancement w (Some p) d a) = Next (Some ?ap)"
    by (rule snd_enhancement_Some)
  have mi: "snd (model_init w m) = Next ()"
    using i by (simp add: snd_model_init)
  show "(''TRANSCRIPTION'', ''INFO'') \<in> set (outline (fst (run_pipeline w p d a f m c l)))"
    by (simp add: fst_run v n e mi outline_append outline_transcription)
  have "WhisperTranscribe ?ap
           (case l of None \<Rightarrow> None | Some s \<Rightarrow> if s \<noteq> [] then Some s else None)
         \<in> set (calls (fst (run_pipeline w p d a f m c l)))"
    by (simp add: calls_run v n e mi calls_transcription fst_transcribe)
  then show "WhisperTranscribe ?ap
           (case l of None \<Rightarrow> None | Some s \<Rightarrow> if s \<noteq> [] then Some s else None)
         \<in> set (fst (run_pipeline w p d a f m c l))"
    by (simp add: in_calls)
qed

theorem C2_normalization_failure_witness:
  "file_exists (example_world\<lparr>video_converted := None, audio_converted := None\<rparr>) \<and>
   lower (suffix ''talk.mp4'') \<in> set video_types \<and>
   lower (suffix ''talk.mp3'') \<in> set audio_types \<and>
   lower (suffix ''talk.mp3'') \<noteq> ''.wav'' \<and>
   snd (run_pipeline (example_world\<lparr>video_converted := None, audio_converted := None\<rparr>)
          ''talk.mp4'' False False False ''small'' 2000 None) =
     Returned [(''error'', PStr ''Video conversion failed'')] \<and>
   ''TRANSCRIPTION'' \<notin> set (stages_logged (fst
      (run_pipeline (example_world\<lparr>video_converted := None, audio_converted := None\<rparr>)
          ''talk.mp4'' False False False ''small'' 2000 None))) \<and>
   log ''AUDIO_PROCESSING'' ''WARNING''
       ''Audio format conversion failed. Using original file.'' []
     \<in> set (fst (run_pipeline (example_world\<lparr>video_converted := None, audio_converted := None\<rparr>)
          ''talk.mp3'' False False False ''small'' 2000 None)) \<and>
   WhisperTranscribe ''talk.mp3'' None
     \<in> set (fst (run_pipeline (example_world\<lparr>video_converted := None, audio_converted := None\<rparr>)
          ''talk.mp3'' False False False ''small'' 2000 None))"
proof -
  let ?w = "example_world\<lparr>video_converted := None, audio_converted := None\<rparr>"
  have s: "lower (suffix ''talk.mp4'') \<in> set video_types"
    "lower (suffix ''talk.mp3'') \<in> set audio_types"
    "lower (suffix ''talk.mp3'') \<noteq> ''.wav''"
    by code_simp+
  have w: "file_exists ?w" "video_converted ?w = None" "audio_converted ?w = None"
    "models_init ?w = None"
    by (simp_all add: example_world_def)
  show ?thesis
    using s w
      C2_normalization_failure [of ?w "''talk.mp4''" False False False "''small''" 2000 None]
      C2_normalization_failure [of ?w "''talk.mp3''" False False False "''small''" 2000 None]
    by simp
qed

text \<open>
  C2 as the specification states it fails: the standardization of an MP3 input returns null, denoising is
  requested and succeeds, and the transcription stage is reached with the enhanced file,
  not with the original input path.
\<close>

theorem C2_counterexample:
  "lower (suffix ''talk.mp3'') \<in> set audio_types \<and>
   audio_converted (example_world\<lparr>audio_converted := None\<rparr>) = None \<and>
   WhisperTranscribe ''talk.mp3'' None \<notin>
     set (fst (run_pipeline (example_world\<lparr>audio_converted := None\<rparr>) ''talk.mp3''
                 True False False ''small'' 2000 None)) \<and>
   calls (fst (run_pipeline (example_world\<lparr>audio_converted := None\<rparr>) ''talk.mp3''
                 True False False ''small'' 2000 None)) =
     [Mkdir ''data/audio'',
      ConvertAudio ''talk.mp3'' ''data/audio/talk_standardized.wav'',
      Enhance (Some ''talk.mp3'') False,
      InitModels ''small'',
      WhisperTranscribe ''data/audio/enhanced/talk.wav'' None,
      GenerateContent (prompt '' hello world'' ''en''),
      ChunkText ''Hello world.'' 2000,
      FinalSummary [(0, [''Hello world.''])] ''en'',
      Save,
      CleanFolder ''data/audio/enhanced'',
      CleanFolder ''data/temp'',
      CleanFolder ''data/audio'']"
  by code_simp

text \<open>
  C3. The specification says that \<^verbatim>\<open>save()\<close> runs once in every run. Here the input
  file is missing: the run returns the error dictionary and has not called \<^verbatim>\<open>save()\<close>.
  Lemma \<open>saves_run\<close> has the general picture for a run that returns: one call when it
  returns the success dictionary, none when it returns an error.
\<close>

theorem C3_error_run_is_not_saved:
  "snd (run_pipeline (example_world\<lparr>file_exists := False\<rparr>) ''talk.mp4''
          False False False ''small'' 2000 None) =
     Returned [(''error'', PStr ''File not found: talk.mp4'')] \<and>
   saves (fst (run_pipeline (example_world\<lparr>file_exists := False\<rparr>) ''talk.mp4''
          False False False ''small'' 2000 None)) = 0"
  by code_simp

text \<open>
  C4. When the input path does not exist, the run consists of the opening event and one
  FILE\_VALIDATION error event, and it returns exactly the dictionary with the single key
  \<^verbatim>\<open>error\<close> and the text \<^verbatim>\<open>File not found: \<close> followed by the path. The trace holds no
  call at all: no directory is made, nothing is converted, enhanced, initialised,
  transcribed, chunked or summarised.
\<close>

theorem C4_missing_input:
  "\<not> file_exists w \<Longrightarrow>
   run_pipeline w input_file denoise aggressive_denoise force_wav transcriber_model
       chunk_size language =
     ([log ''INITIALIZATION'' ''INFO'' ''Starting audio/video processing pipeline''
         [(''input_file'', LStr input_file),
          (''transcriber_model'', LStr transcriber_model),
          (''denoise_enabled'', LBool denoise),
          (''aggressive_denoise'', LBool aggressive_denoise)],
       log ''FILE_VALIDATION'' ''ERROR'' (''Input file not found: '' @ input_file) []],
      Returned [(''error'', PStr (''File not found: '' @ input_file))])"
  by (simp add: run_pipeline_def validation_def and_then_def finish_def)

theorem C4_missing_input_witness:
  "\<not> file_exists (example_world\<lparr>file_exists := False\<rparr>) \<and>
   snd (run_pipeline (example_world\<lparr>file_exists := False\<rparr>) ''talk.mp4''
          True False False ''small'' 2000 None) =
     Returned [(''error'', PStr ''File not found: talk.mp4'')] \<and>
   calls (fst (run_pipeline (example_world\<lparr>file_exists := False\<rparr>) ''talk.mp4''
          True False False ''small'' 2000 None)) = []"
  using C4_missing_input [of "example_world\<lparr>file_exists := False\<rparr>" "''talk.mp4''"
      True False False "''small''" 2000 None]
  by (simp add: example_world_def calls_def log_def)

text \<open>
  C5. In a run that reaches the chunking stage, the clustering collaborator is called
  exactly when \<^verbatim>\<open>chunk_text\<close> has returned more than seven chunks. With eight chunks or more
  it is called with the chunks; with seven chunks or fewer it is not called at all and the
  summary is requested for the single cluster \<^verbatim>\<open>{0: chunks}\<close>.
\<close>

theorem C5_clustering_threshold:
  assumes "ChunkText transcript n \<in> set (fst (run_pipeline w p d a f m c l))"
  shows "(7 < length (chunked w) \<longrightarrow>
            ClusterChunks (chunked w) \<in> set (fst (run_pipeline w p d a f m c l))) \<and>
         (length (chunked w) \<le> 7 \<longrightarrow>
            (\<forall>chunks. ClusterChunks chunks \<notin> set (fst (run_pipeline w p d a f m c l))) \<and>
            (\<exists>lang. FinalSummary [(0, chunked w)] lang \<in> set (fst (run_pipeline w p d a f m c l))))"
proof -
  let ?t = "fst (run_pipeline w p d a f m c l)"
  have mem: "ClusterChunks x \<in> set ?t \<longleftrightarrow> ClusterChunks x \<in> set (calls ?t)"
    "FinalSummary y z \<in> set ?t \<longleftrightarrow> FinalSummary y z \<in> set (calls ?t)" for x y z
    by (simp_all add: in_calls)
  have "ChunkText transcript n \<in> set (calls ?t)"
    using assms by (simp add: in_calls)
  then obtain it ap ap' r tr where reached:
    "snd (validation w p d a m) = Next it"
    "snd (normalization w p it f) = Next ap"
    "snd (enhancement w ap d a) = Next ap'"
    "snd (model_init w m) = Next ()"
    "snd (transcription w ap' l) = Next r"
    "snd (correction w (fst r) (snd r)) = Next tr"
    unfolding calls_run
    by (auto simp: early_calls cleanup_calls split: step.splits) metis
  have "calls ?t =
      calls (fst (normalization w p it f)) @ calls (fst (enhancement w ap d a)) @
      InitModels m # calls (fst (transcription w ap' l)) @
      GenerateContent (prompt (fst r) (snd r)) #
      ChunkText tr c #
      (if 7 < length (chunked w) then [ClusterChunks (chunked w)] else []) @
      [FinalSummary (if 7 < length (chunked w) then clustered w else [(0, chunked w)]) (snd r),
       Save] @ calls (fst (cleanup w temp_folders))"
    by (simp add: calls_run reached)
  then show ?thesis
    unfolding mem by (auto simp: early_calls cleanup_calls)
qed

theorem C5_clustering_threshold_witness:
  "ChunkText ''Hello world.'' 2000 \<in>
     set (fst (run_pipeline (example_world\<lparr>chunked := replicate 7 ''chunk''\<rparr>) ''talk.wav''
                 False False False ''small'' 2000 None)) \<and>
   (\<forall>chunks. ClusterChunks chunks \<notin>
     set (fst (run_pipeline (example_world\<lparr>chunked := replicate 7 ''chunk''\<rparr>) ''talk.wav''
                 False False False ''small'' 2000 None))) \<and>
   (\<exists>lang. FinalSummary [(0, replicate 7 ''chunk'')] lang \<in>
     set (fst (run_pipeline (example_world\<lparr>chunked := replicate 7 ''chunk''\<rparr>) ''talk.wav''
                 False False False ''small'' 2000 None))) \<and>
   ChunkText ''Hello world.'' 2000 \<in>
     set (fst (run_pipeline (example_world\<lparr>chunked := replicate 8 ''chunk''\<rparr>) ''talk.wav''
                 False False False ''small'' 2000 None)) \<and>
   ClusterChunks (replicate 8 ''chunk'') \<in>
     set (fst (run_pipeline (example_world\<lparr>chunked := replicate 8 ''chunk''\<rparr>) ''talk.wav''
                 False False False ''small'' 2000 None))"
proof -
  have seven: "ChunkText ''Hello world.'' 2000 \<in>
     set (fst (run_pipeline (example_world\<lparr>chunked := replicate 7 ''chunk''\<rparr>) ''talk.wav''
                 False False False ''small'' 2000 None))"
    by code_simp
  have eight: "ChunkText ''Hello world.'' 2000 \<in>
     set (fst (run_pipeline (example_world\<lparr>chunked := replicate 8 ''chunk''\<rparr>) ''talk.wav''
                 False False False ''small'' 2000 None))"
    by code_simp
  show ?thesis
    using seven eight C5_clustering_threshold [OF seven] C5_clustering_threshold [OF eight]
    by simp
qed




text \<open>
  C7, as the code has it. The enhancer is called only if one of the two denoise flags is
  set, and in every run that passes validation and normalization with a flag set it is
  called, with the flag \<^verbatim>\<open>aggressive_denoise\<close>. When the enhancer returns null, the run logs
  the AUDIO\_ENHANCEMENT error event, its outcome is the outcome of the same run without
  the flags, and apart from the call of the enhancer it makes the same calls with the same
  arguments: the audio artifact is the one from before the enhancement.
\<close>

theorem C7_enhancement_gate:
  "(\<forall>ap ag. Enhance ap ag \<in> set (fst (run_pipeline w p d a f m c l)) \<longrightarrow> d \<or> a) \<and>
   (file_exists w \<and> lower (suffix p) \<in> set type_supported \<and>
    (lower (suffix p) \<in> set video_types \<longrightarrow> video_converted w \<noteq> None) \<and> (d \<or> a) \<longrightarrow>
      (\<exists>ap. Enhance (Some ap) a \<in> set (fst (run_pipeline w p d a f m c l))) \<and>
      (enhanced w = None \<longrightarrow>
         log ''AUDIO_ENHANCEMENT'' ''ERROR''
           ''Audio enhancement failed. Proceeding with original audio.'' []
           \<in> set (fst (run_pipeline w p d a f m c l)))) \<and>
   (enhanced w = None \<longrightarrow>
      snd (run_pipeline w p d a f m c l) = snd (run_pipeline w p False False f m c l) \<and>
      filter (\<lambda>x. \<not> is_enhance x) (calls (fst (run_pipeline w p d a f m c l))) =
        calls (fst (run_pipeline w p False False f m c l)))"
proof (intro conjI allI impI)
  fix ap ag
  assume "Enhance ap ag \<in> set (fst (run_pipeline w p d a f m c l))"
  then have "Enhance ap ag \<in> set (calls (fst (run_pipeline w p d a f m c l)))"
    by (simp add: in_calls)
  then show "d \<or> a"
    unfolding calls_run
    using calls_cleanup [of w temp_folders]
    by (auto simp: enhance_calls calls_enhancement split: step.splits if_splits)
next
  assume h: "file_exists w \<and> lower (suffix p) \<in> set type_supported \<and>
    (lower (suffix p) \<in> set video_types \<longrightarrow> video_converted w \<noteq> None) \<and> (d \<or> a)"
  then obtain ap where r: "snd (validation w p d a m) = Next (lower (suffix p))"
    "snd (normalization w p (lower (suffix p)) f) = Next (Some ap)"
    using reaches_enhancement [of w p d a m f] by auto
  have "Enhance (Some ap) a \<in> set (calls (fst (run_pipeline w p d a f m c l)))"
    using h by (simp add: calls_run r calls_enhancement)
  then show "\<exists>ap. Enhance (Some ap) a \<in> set (fst (run_pipeline w p d a f m c l))"
    by (auto simp: in_calls)
  assume "enhanced w = None"
  with h have "enhancement w (Some ap) d a =
     ([log ''AUDIO_ENHANCEMENT'' ''INFO'' ''Starting audio enhancement''
         [(''aggressive_mode'', LBool a)],
       Enhance (Some ap) a,
       log ''AUDIO_ENHANCEMENT'' ''ERROR''
         ''Audio enhancement failed. Proceeding with original audio.'' []],
      Next (Some ap))"
    by (simp add: enhancement_failed)
  then show "log ''AUDIO_ENHANCEMENT'' ''ERROR''
           ''Audio enhancement failed. Proceeding with original audio.'' []
           \<in> set (fst (run_pipeline w p d a f m c l))"
    by (simp add: fst_run r)
next
  assume e: "enhanced w = None"
  show "snd (run_pipeline w p d a f m c l) = snd (run_pipeline w p False False f m c l)"
    by (simp add: snd_run snd_validation snd_enhancement e cong: step.case_cong)
  show "filter (\<lambda>x. \<not> is_enhance x) (calls (fst (run_pipeline w p d a f m c l))) =
        calls (fst (run_pipeline w p False False f m c l))"
    by (simp add: calls_run snd_validation snd_enhancement e enhance_calls enhance_cleanup
        calls_enhancement step.case_distrib [of "filter P" for P] cong: step.case_cong)
qed

theorem C7_enhancement_gate_witness:
  "file_exists (example_world\<lparr>enhanced := None\<rparr>) \<and>
   lower (suffix ''talk.wav'') \<in> set type_supported \<and>
   lower (suffix ''talk.wav'') \<notin> set video_types \<and>
   enhanced (example_world\<lparr>enhanced := None\<rparr>) = None \<and>
   (\<exists>ap. Enhance (Some ap) False \<in>
      set (fst (run_pipeline (example_world\<lparr>enhanced := None\<rparr>) ''talk.wav''
                  True False False ''small'' 2000 None))) \<and>
   log ''AUDIO_ENHANCEMENT'' ''ERROR''
       ''Audio enhancement failed. Proceeding with original audio.'' []
     \<in> set (fst (run_pipeline (example_world\<lparr>enhanced := None\<rparr>) ''talk.wav''
                  True False False ''small'' 2000 None)) \<and>
   snd (run_pipeline (example_world\<lparr>enhanced := None\<rparr>) ''talk.wav''
          True False False ''small'' 2000 None) =
   snd (run_pipeline (example_world\<lparr>enhanced := None\<rparr>) ''talk.wav''
          False False False ''small'' 2000 None)"
proof -
  have s: "lower (suffix ''talk.wav'') \<in> set type_supported"
    "lower (suffix ''talk.wav'') \<notin> set video_types"
    by code_simp+
  have w: "file_exists (example_world\<lparr>enhanced := None\<rparr>)"
    "enhanced (example_world\<lparr>enhanced := None\<rparr>) = None"
    by (simp_all add: example_world_def)
  show ?thesis
    using s w
      C7_enhancement_gate [of "example_world\<lparr>enhanced := None\<rparr>" "''talk.wav''"
        True False False "''small''" 2000 None]
    by simp
qed

text \<open>
  C7 as the specification states it fails: with both denoise flags set, a run on a missing input file and
  a run on a video whose conversion returns null end before line 82 and never call the
  enhancer.
\<close>

theorem C7_counterexample:
  "\<not> file_exists (example_world\<lparr>file_exists := False\<rparr>) \<and>
   filter is_enhance
     (fst (run_pipeline (example_world\<lparr>file_exists := False\<rparr>) ''talk.mp4''
             True True False ''small'' 2000 None)) = [] \<and>
   video_converted (example_world\<lparr>video_converted := None\<rparr>) = None \<and>
   filter is_enhance
     (fst (run_pipeline (example_world\<lparr>video_converted := None\<rparr>) ''talk.mp4''
             True True False ''small'' 2000 None)) = []"
  by code_simp

text \<open>
  C8. A dictionary returned by a run has the single key \<^verbatim>\<open>error\<close> with a string, or it
  has exactly the five keys summary, transcript, detected\_language, chunks and
  cluster\_summaries, in this order; never both.
\<close>

theorem C8_result_shape:
  "snd (run_pipeline w input_file denoise aggressive_denoise force_wav transcriber_model
          chunk_size language) = Returned r
   \<Longrightarrow> (is_error_shape r \<and> \<not> is_success_shape r) \<or> (is_success_shape r \<and> \<not> is_error_shape r)"
  unfolding snd_run
  by (auto simp: enhancement_never_stops correction_stop cleanup_stop is_success_shape_def
      split: step.splits
      dest: validation_stop normalization_stop model_init_stop transcription_stop)
    (auto simp: is_error_shape_def)

theorem C8_result_shape_witness:
  "snd (run_pipeline example_world ''talk.mp3'' False False False ''small'' 2000 None) =
     Returned [(''summary'', PStr ''A greeting.''),
               (''transcript'', PStr ''Hello world.''),
               (''detected_language'', PStr ''en''),
               (''chunks'', PStrList [''Hello world.'']),
               (''cluster_summaries'', PObj [''A greeting.''])] \<and>
   is_success_shape
     [(''summary'', PStr ''A greeting.''),
      (''transcript'', PStr ''Hello world.''),
      (''detected_language'', PStr ''en''),
      (''chunks'', PStrList [''Hello world.'']),
      (''cluster_summaries'', PObj [''A greeting.''])]"
proof -
  have run: "snd (run_pipeline example_world ''talk.mp3'' False False False ''small'' 2000 None) =
     Returned [(''summary'', PStr ''A greeting.''),
               (''transcript'', PStr ''Hello world.''),
               (''detected_language'', PStr ''en''),
               (''chunks'', PStrList [''Hello world.'']),
               (''cluster_summaries'', PObj [''A greeting.''])]"
    by code_simp
  from C8_result_shape [OF run] show ?thesis
    using run by (simp add: is_error_shape_def)
qed

text \<open>
  C9, as the code has it. When the call of the generative model raises an exception that
  \<^verbatim>\<open>except Exception\<close> catches (line 50 of summarizer.py), \<^verbatim>\<open>language_rules\<close> returns the
  transcript it was given; when the call returns a text, it returns that text stripped.
  \<^verbatim>\<open>language_rules\<close> raises only when the model call raises an exception that is not
  derived from \<^verbatim>\<open>Exception\<close>, and then it raises that exception. The correction stage can
  end a run in this way only.
\<close>

theorem C9_language_rules_catches_Exception:
  "(\<forall>e. generated w = Inl e \<and> is_Exception e \<longrightarrow>
      snd (language_rules w transcript language) = Inr transcript) \<and>
   (\<forall>text. generated w = Inr text \<longrightarrow>
      snd (language_rules w transcript language) = Inr (strip text)) \<and>
   (\<forall>e. snd (language_rules w transcript language) = Inl e \<longrightarrow>
      \<not> is_Exception e \<and> generated w = Inl e) \<and>
   (\<forall>out. snd (correction w transcript language) = Stop out \<longrightarrow>
      (\<exists>e. out = Raised e \<and> \<not> is_Exception e \<and> generated w = Inl e))"
  by (auto simp: snd_language_rules snd_correction split: sum.splits if_splits)

theorem C9_language_rules_catches_Exception_witness:
  "generated (example_world\<lparr>generated := Inl (Exception ''ResourceExhausted'' ''quota exceeded'')\<rparr>) =
     Inl (Exception ''ResourceExhausted'' ''quota exceeded'') \<and>
   is_Exception (Exception ''ResourceExhausted'' ''quota exceeded'') \<and>
   snd (language_rules (example_world\<lparr>generated := Inl (Exception ''ResourceExhausted'' ''quota exceeded'')\<rparr>)
          '' hello world'' ''en'') = Inr '' hello world'' \<and>
   snd (correction (example_world\<lparr>generated := Inl (Exception ''ResourceExhausted'' ''quota exceeded'')\<rparr>)
          '' hello world'' ''en'') = Next '' hello world''"
proof -
  let ?w = "example_world\<lparr>generated := Inl (Exception ''ResourceExhausted'' ''quota exceeded'')\<rparr>"
  have g: "generated ?w = Inl (Exception ''ResourceExhausted'' ''quota exceeded'')"
    by (simp add: example_world_def)
  have lr: "snd (language_rules ?w '' hello world'' ''en'') = Inr '' hello world''"
    using g C9_language_rules_catches_Exception [of ?w "'' hello world''" "''en''",
        THEN conjunct1, rule_format, of "Exception ''ResourceExhausted'' ''quota exceeded''"]
    by simp
  have "snd (correction ?w '' hello world'' ''en'') = Next '' hello world''"
    using g by (simp add: snd_correction)
  with g lr show ?thesis
    by simp
qed

text \<open>
  C9 as the specification states it fails: the call of the generative model raises
  \<^verbatim>\<open>KeyboardInterrupt\<close>, which \<^verbatim>\<open>except Exception\<close> does not catch.
  \<^verbatim>\<open>language_rules\<close> raises it, and the run that reached the correction stage ends with
  that exception, the CORRECTION start event being the last of its log.
\<close>

theorem C9_counterexample:
  "snd (language_rules (example_world\<lparr>generated := Inl (BaseException ''KeyboardInterrupt'' [])\<rparr>)
          '' hello world'' ''en'') = Inl (BaseException ''KeyboardInterrupt'' []) \<and>
   snd (run_pipeline (example_world\<lparr>generated := Inl (BaseException ''KeyboardInterrupt'' [])\<rparr>)
          ''talk.wav'' False False False ''small'' 2000 None) =
     Raised (BaseException ''KeyboardInterrupt'' []) \<and>
   outline (fst (run_pipeline (example_world\<lparr>generated := Inl (BaseException ''KeyboardInterrupt'' [])\<rparr>)
          ''talk.wav'' False False False ''small'' 2000 None)) =
     [(''INITIALIZATION'', ''INFO''), (''FILE_VALIDATION'', ''SUCCESS''),
      (''AUDIO_CONVERSION'', ''INFO''), (''AUDIO_PROCESSING'', ''INFO''),
      (''AUDIO_PROCESSING'', ''INFO''), (''AUDIO_ENHANCEMENT'', ''INFO''),
      (''MODEL_INIT'', ''INFO''), (''MODEL_INIT'', ''SUCCESS''),
      (''TRANSCRIPTION'', ''INFO''), (''TRANSCRIPTION'', ''SUCCESS''),
      (''CORRECTION'', ''INFO'')]"
  by code_simp



end
